theory Spec2Isabelle
  imports Complex_Main "HOL-Library.Word"
begin

section \<open>Probing.h: the probing operations of HeeksCNC\<close>

text \<open>
  The header declares the class \<open>CProbing\<close> and its two subclasses \<open>CProbe_Centre\<close> and
  \<open>CProbe_Edge\<close>. The three constructors are the only member functions whose bodies
  change an object; they are embedded here as functions that return the constructed
  object. A C++ \<open>double\<close> is read as a real number (rounding is not modelled), an
  \<open>int\<close> and an \<open>unsigned int\<close> as a 32-bit word.
\<close>

subsection \<open>Enumerations of CProbing\<close>

datatype eCorners_t = eBottomLeft | eBottomRight | eTopLeft | eTopRight

datatype eEdges_t = eBottom | eTop | eLeft | eRight

datatype eProbeDirection_t = eInside | eOutside

text \<open>The conversion \<open>int(e)\<close> of a direction: \<open>eInside = 0\<close>, then \<open>eOutside\<close>.\<close>

fun int_of_eProbeDirection_t :: "eProbeDirection_t \<Rightarrow> 32 word" where
  "int_of_eProbeDirection_t eInside = 0"
| "int_of_eProbeDirection_t eOutside = 1"

subsection \<open>The objects\<close>

text \<open>
  \<open>CSpeedOp\<close>, \<open>COp\<close> and \<open>CCuttingTool\<close> are declared in headers outside this file.
  Their records hold the members that Probing.h reads or writes: \<open>COp::m_active\<close>
  (assigned the literal \<open>0\<close> and tested by \<open>if(m_active)\<close>), the spindle speed and the
  horizontal feed rate of \<open>m_speed_op_params\<close>, and a cutting tool's type and
  tool length offset. The enumerators of \<open>CCuttingToolParams\<close> are not in this file
  either, so a tool's type is the enumerator's integer value.
\<close>

record CSpeedOpParams =
  m_spindle_speed :: real
  m_horozontal_feed_rate :: real

record CSpeedOp =
  m_active :: int
  m_speed_op_params :: CSpeedOpParams

record CCuttingToolParams =
  m_type :: int
  m_tool_length_offset :: real

record CCuttingTool =
  m_params :: CCuttingToolParams

record CProbing = CSpeedOp +
  m_depth :: real
  m_distance :: real

record CProbe_Centre = CProbing +
  m_direction :: "32 word"
  m_number_of_points :: "32 word"

record CProbe_Edge = CProbing +
  m_retract :: real
  m_number_of_edges :: "32 word"
  m_edge :: eEdges_t
  m_corner :: eCorners_t

subsection \<open>The constructors\<close>

text \<open>
  \<open>CProbing(title, cutting_tool_number)\<close> first runs the base constructor
  \<open>CSpeedOp(title, cutting_tool_number)\<close> and later calls the static lookup
  \<open>CCuttingTool::Find\<close>; the bodies of both are outside this file, so they are the
  parameters \<open>CSpeedOp_ctor\<close> and \<open>Find\<close> (\<open>None\<close> for the \<open>NULL\<close> pointer), and
  \<open>eTouchProbe\<close> is the value of \<open>CCuttingToolParams::eTouchProbe\<close>. The object
  \<open>this\<close> is the base part after the body's four unconditional assignments (spindle
  speed 0, active flag 0, depth 10, distance 50; the two doubles have no value before
  them); the conditional second assignment of the depth follows.
\<close>

definition CProbing_ctor ::
  "(string \<Rightarrow> 32 word \<Rightarrow> CSpeedOp) \<Rightarrow> (32 word \<Rightarrow> CCuttingTool option) \<Rightarrow> int
    \<Rightarrow> string \<Rightarrow> 32 word \<Rightarrow> CProbing" where
  "CProbing_ctor CSpeedOp_ctor Find eTouchProbe title cutting_tool_number =
     (let base = CSpeedOp_ctor title cutting_tool_number;
          this = \<lparr>m_active = 0,
                  m_speed_op_params = (m_speed_op_params base)\<lparr>m_spindle_speed := 0\<rparr>,
                  m_depth = 10,
                  m_distance = 50\<rparr>
      in case Find cutting_tool_number of
           None \<Rightarrow> this
         | Some pCuttingTool \<Rightarrow>
             if m_type (m_params pCuttingTool) = eTouchProbe
             then this\<lparr>m_depth := m_tool_length_offset (m_params pCuttingTool) / 2\<rparr>
             else this)"

text \<open>
  \<open>CProbe_Centre(cutting_tool_number)\<close> builds its \<open>CProbing\<close> part with the title
  "Probe Centre" and then sets the direction to \<open>int(eOutside)\<close> and the number of
  points to 2.
\<close>

definition CProbe_Centre_ctor ::
  "(string \<Rightarrow> 32 word \<Rightarrow> CSpeedOp) \<Rightarrow> (32 word \<Rightarrow> CCuttingTool option) \<Rightarrow> int
    \<Rightarrow> 32 word \<Rightarrow> CProbe_Centre" where
  "CProbe_Centre_ctor CSpeedOp_ctor Find eTouchProbe cutting_tool_number =
     (let base = CProbing_ctor CSpeedOp_ctor Find eTouchProbe ''Probe Centre'' cutting_tool_number
      in \<lparr>m_active = m_active base,
          m_speed_op_params = m_speed_op_params base,
          m_depth = m_depth base,
          m_distance = m_distance base,
          m_direction = int_of_eProbeDirection_t eOutside,
          m_number_of_points = 2\<rparr>)"

text \<open>
  \<open>CProbe_Edge(cutting_tool_number)\<close> builds its \<open>CProbing\<close> part with the title
  "Probe Edge" and then sets the retract distance to 5 mm, the number of edges to 2,
  the edge to \<open>eBottom\<close> and the corner to \<open>eBottomLeft\<close>.
\<close>

definition CProbe_Edge_ctor ::
  "(string \<Rightarrow> 32 word \<Rightarrow> CSpeedOp) \<Rightarrow> (32 word \<Rightarrow> CCuttingTool option) \<Rightarrow> int
    \<Rightarrow> 32 word \<Rightarrow> CProbe_Edge" where
  "CProbe_Edge_ctor CSpeedOp_ctor Find eTouchProbe cutting_tool_number =
     (let base = CProbing_ctor CSpeedOp_ctor Find eTouchProbe ''Probe Edge'' cutting_tool_number
      in \<lparr>m_active = m_active base,
          m_speed_op_params = m_speed_op_params base,
          m_depth = m_depth base,
          m_distance = m_distance base,
          m_retract = 5,
          m_number_of_edges = 2,
          m_edge = eBottom,
          m_corner = eBottomLeft\<rparr>)"

subsection \<open>The member functions with a body\<close>








text \<open>
  A host to run the constructors in: a base constructor that starts an operation active
  with the spindle turning, and a tool table with a touch probe of length offset 30 in
  slot 3 and another tool in slot 4 (type 7 stands for \<open>eTouchProbe\<close>).
\<close>

definition running_CSpeedOp :: "string \<Rightarrow> 32 word \<Rightarrow> CSpeedOp" where
  "running_CSpeedOp title cutting_tool_number =
     \<lparr>m_active = 1,
      m_speed_op_params = \<lparr>m_spindle_speed = 3000, m_horozontal_feed_rate = 100\<rparr>\<rparr>"

definition tool_table :: "32 word \<Rightarrow> CCuttingTool option" where
  "tool_table n =
     (if n = 3 then Some \<lparr>m_params = \<lparr>m_type = 7, m_tool_length_offset = 30\<rparr>\<rparr>
      else if n = 4 then Some \<lparr>m_params = \<lparr>m_type = 2, m_tool_length_offset = 80\<rparr>\<rparr>
      else None)"

section \<open>The reduction of contact points to a centre\<close>

text \<open>
  Probing.h declares no function that turns probe contact points into a centre, so
  the reduction to a centre is written from the specification's sections 3 and 4.1.
  Coordinates are real numbers: the rounding of double-precision arithmetic is not
  modelled.
\<close>

text \<open>
  Modelled from the spec: a \<open>Point\<close> of the data model, a 3D coordinate (x, y, z), with
  its three projections. The class \<open>CNCPoint\<close> that the header includes is not in the
  source.
\<close>

type_synonym Point = "real \<times> real \<times> real"

definition px :: "Point \<Rightarrow> real" where
  "px p = fst p"

definition py :: "Point \<Rightarrow> real" where
  "py p = fst (snd p)"

definition pz :: "Point \<Rightarrow> real" where
  "pz p = snd (snd p)"

text \<open>Modelled from the spec: the error kinds of section 7.\<close>

datatype ProbeError =
  InsufficientPointsError | ParallelEdgesError | ProbeTimeoutError | ProbeAbortError

text \<open>
  Modelled from the spec: the data model's \<open>ProbeCentreConfig\<close>, whose \<open>numberOfPoints\<close>
  ranges over the two values 2 and 4 only.
\<close>

datatype PointCount = TwoPoints | FourPoints

fun required_points :: "PointCount \<Rightarrow> nat" where
  "required_points TwoPoints = 2"
| "required_points FourPoints = 4"

record ProbeCentreConfig =
  direction :: eProbeDirection_t
  numberOfPoints :: PointCount

text \<open>Modelled from the spec: the midpoint of two contact points.\<close>

definition MidPoint :: "Point \<Rightarrow> Point \<Rightarrow> Point" where
  "MidPoint p q = ((px p + px q) / 2, (py p + py q) / 2, (pz p + pz q) / 2)"

text \<open>
  Modelled from the spec: \<open>ReduceCentre\<close>, which is missing from the source. It fails
  with \<open>InsufficientPointsError\<close> when the number of points differs from the
  configured one; two points give their midpoint; four points give the average of the
  midpoint of the first pair and the midpoint of the second pair (the opposing pairs of
  the specification's example). The last case cannot be reached: a list that passes
  the length check has two or four elements.
\<close>

definition ReduceCentre :: "ProbeCentreConfig \<Rightarrow> Point list \<Rightarrow> ProbeError + Point" where
  "ReduceCentre config points =
     (if length points \<noteq> required_points (numberOfPoints config)
      then Inl InsufficientPointsError
      else case points of
             [p1, p2] \<Rightarrow> Inr (MidPoint p1 p2)
           | [p1, p2, p3, p4] \<Rightarrow> Inr (MidPoint (MidPoint p1 p2) (MidPoint p3 p4))
           | _ \<Rightarrow> Inl InsufficientPointsError)"

text \<open>
  Modelled from the spec: the centroid of a list of points, coordinate by coordinate.
  The specification says that the four-point result is equivalent to it; it is the
  second definition that \<open>ReduceCentre\<close> is compared with.
\<close>

definition centroid :: "Point list \<Rightarrow> Point" where
  "centroid ps =
     (sum_list (map px ps) / real (length ps),
      sum_list (map py ps) / real (length ps),
      sum_list (map pz ps) / real (length ps))"

section \<open>Properties of the constructors\<close>

lemma CProbing_ctor_active:
  "m_active (CProbing_ctor S F e t n) = 0"
  by (simp add: CProbing_ctor_def Let_def split: option.split)

lemma CProbing_ctor_spindle:
  "m_spindle_speed (m_speed_op_params (CProbing_ctor S F e t n)) = 0"
  by (simp add: CProbing_ctor_def Let_def split: option.split)

lemma CProbing_ctor_distance:
  "m_distance (CProbing_ctor S F e t n) = 50"
  by (simp add: CProbing_ctor_def Let_def split: option.split)

text \<open>
  C9. Every probing operation, as the constructor leaves it, has spindle speed 0 and
  active flag 0: this holds for a \<open>CProbing\<close>, a \<open>CProbe_Centre\<close> and a \<open>CProbe_Edge\<close>
  object, whatever the base constructor did with the title and the cutting tool number
  and whatever the tool lookup returns.
\<close>

theorem probing_constructed_idle:
  "m_spindle_speed (m_speed_op_params (CProbing_ctor S F e title n)) = 0
   \<and> m_active (CProbing_ctor S F e title n) = 0
   \<and> m_spindle_speed (m_speed_op_params (CProbe_Centre_ctor S F e n)) = 0
   \<and> m_active (CProbe_Centre_ctor S F e n) = 0
   \<and> m_spindle_speed (m_speed_op_params (CProbe_Edge_ctor S F e n)) = 0
   \<and> m_active (CProbe_Edge_ctor S F e n) = 0"
  by (simp add: CProbe_Centre_ctor_def CProbe_Edge_ctor_def Let_def
      CProbing_ctor_active CProbing_ctor_spindle)

lemma CProbing_ctor_depth_probe:
  "Find n = Some tool \<Longrightarrow> m_type (m_params tool) = e
    \<Longrightarrow> m_depth (CProbing_ctor S Find e t n) = m_tool_length_offset (m_params tool) / 2"
  by (simp add: CProbing_ctor_def Let_def)

lemma CProbing_ctor_depth_no_tool:
  "Find n = None \<Longrightarrow> m_depth (CProbing_ctor S Find e t n) = 10"
  by (simp add: CProbing_ctor_def Let_def)

lemma CProbing_ctor_depth_other_tool:
  "Find n = Some tool \<Longrightarrow> m_type (m_params tool) \<noteq> e
    \<Longrightarrow> m_depth (CProbing_ctor S Find e t n) = 10"
  by (simp add: CProbing_ctor_def Let_def)

text \<open>
  C10. The default plunge depth follows the cutting tool: when the tool number resolves
  to a tool whose type is the touch probe, the depth is half that tool's length offset;
  when no tool is found, or the tool found is of another type, the depth is 10 mm. The
  outward distance is 50 mm in every case. The two subclasses take both values over
  from their \<open>CProbing\<close> part unchanged.
\<close>

theorem probing_default_depth:
  "(Find n = Some tool \<and> m_type (m_params tool) = eTouchProbe
      \<longrightarrow> m_depth (CProbing_ctor S Find eTouchProbe title n)
          = m_tool_length_offset (m_params tool) / 2)
   \<and> (Find n = None \<longrightarrow> m_depth (CProbing_ctor S Find eTouchProbe title n) = 10)
   \<and> (Find n = Some tool \<and> m_type (m_params tool) \<noteq> eTouchProbe
      \<longrightarrow> m_depth (CProbing_ctor S Find eTouchProbe title n) = 10)
   \<and> m_distance (CProbing_ctor S Find eTouchProbe title n) = 50
   \<and> m_depth (CProbe_Centre_ctor S Find eTouchProbe n)
      = m_depth (CProbing_ctor S Find eTouchProbe ''Probe Centre'' n)
   \<and> m_distance (CProbe_Centre_ctor S Find eTouchProbe n) = 50
   \<and> m_depth (CProbe_Edge_ctor S Find eTouchProbe n)
      = m_depth (CProbing_ctor S Find eTouchProbe ''Probe Edge'' n)
   \<and> m_distance (CProbe_Edge_ctor S Find eTouchProbe n) = 50"
  by (simp add: CProbing_ctor_depth_probe CProbing_ctor_depth_no_tool
      CProbing_ctor_depth_other_tool CProbing_ctor_distance
      CProbe_Centre_ctor_def CProbe_Edge_ctor_def Let_def)

text \<open>
  The theorem at the sample tool table: slot 3 holds a touch probe of length offset 30,
  so the depth is 15; slot 9 is empty and slot 4 holds another kind of tool, so the
  depth is 10.
\<close>

theorem probing_default_depth_witness:
  "tool_table 3 = Some \<lparr>m_params = \<lparr>m_type = 7, m_tool_length_offset = 30\<rparr>\<rparr>
   \<and> m_depth (CProbing_ctor running_CSpeedOp tool_table 7 ''Probe'' 3) = 15
   \<and> tool_table 9 = None
   \<and> m_depth (CProbing_ctor running_CSpeedOp tool_table 7 ''Probe'' 9) = 10
   \<and> tool_table 4 = Some \<lparr>m_params = \<lparr>m_type = 2, m_tool_length_offset = 80\<rparr>\<rparr>
   \<and> m_depth (CProbing_ctor running_CSpeedOp tool_table 7 ''Probe'' 4) = 10
   \<and> m_distance (CProbing_ctor running_CSpeedOp tool_table 7 ''Probe'' 3) = 50"
  using
    probing_default_depth [of tool_table 3
      "\<lparr>m_params = \<lparr>m_type = 7, m_tool_length_offset = 30\<rparr>\<rparr>" 7 running_CSpeedOp "''Probe''"]
    probing_default_depth [of tool_table 9 _ 7 running_CSpeedOp "''Probe''"]
    probing_default_depth [of tool_table 4
      "\<lparr>m_params = \<lparr>m_type = 2, m_tool_length_offset = 80\<rparr>\<rparr>" 7 running_CSpeedOp "''Probe''"]
  by (simp add: tool_table_def)








section \<open>Properties of the reduction to a centre\<close>

lemma ReduceCentre_two:
  "numberOfPoints config = TwoPoints \<Longrightarrow> ReduceCentre config [p1, p2] = Inr (MidPoint p1 p2)"
  by (simp add: ReduceCentre_def)

lemma ReduceCentre_four:
  "numberOfPoints config = FourPoints
    \<Longrightarrow> ReduceCentre config [p1, p2, p3, p4] = Inr (MidPoint (MidPoint p1 p2) (MidPoint p3 p4))"
  by (simp add: ReduceCentre_def)

lemma centroid_two: "centroid [p1, p2] = MidPoint p1 p2"
  by (simp add: centroid_def MidPoint_def)

lemma centroid_four: "centroid [p1, p2, p3, p4] = MidPoint (MidPoint p1 p2) (MidPoint p3 p4)"
  by (simp add: centroid_def MidPoint_def px_def py_def pz_def field_simps)

lemma ReduceCentre_is_centroid:
  assumes "length points = required_points (numberOfPoints config)"
  shows "ReduceCentre config points = Inr (centroid points)"
proof (cases "numberOfPoints config")
  case TwoPoints
  with assms have "length points = Suc (Suc 0)" by simp
  then obtain p1 p2 where "points = [p1, p2]"
    by (auto simp: length_Suc_conv)
  with TwoPoints show ?thesis
    by (simp add: ReduceCentre_two centroid_two)
next
  case FourPoints
  with assms have "length points = Suc (Suc (Suc (Suc 0)))" by simp
  then obtain p1 p2 p3 p4 where "points = [p1, p2, p3, p4]"
    by (auto simp: length_Suc_conv)
  with FourPoints show ?thesis
    by (simp add: ReduceCentre_four centroid_four)
qed

text \<open>
  C1. On a point sequence whose length is the configured number of points,
  \<open>ReduceCentre\<close> succeeds with the centroid of the points. For two points that is
  their midpoint, coordinate by coordinate; for four points it is the sum of the
  coordinates divided by four, which is also the average of the midpoints of the two
  pairs. The two examples of the specification both give the point (5, 0, 0).
\<close>

theorem ReduceCentre_midpoint_centroid:
  "(length points = required_points (numberOfPoints config)
      \<longrightarrow> ReduceCentre config points = Inr (centroid points))
   \<and> (numberOfPoints config = TwoPoints
      \<longrightarrow> ReduceCentre config [(x1, y1, z1), (x2, y2, z2)]
          = Inr ((x1 + x2) / 2, (y1 + y2) / 2, (z1 + z2) / 2))
   \<and> (numberOfPoints config = FourPoints
      \<longrightarrow> ReduceCentre config [(x1, y1, z1), (x2, y2, z2), (x3, y3, z3), (x4, y4, z4)]
            = Inr ((x1 + x2 + x3 + x4) / 4, (y1 + y2 + y3 + y4) / 4, (z1 + z2 + z3 + z4) / 4)
        \<and> ReduceCentre config [(x1, y1, z1), (x2, y2, z2), (x3, y3, z3), (x4, y4, z4)]
            = Inr (MidPoint (MidPoint (x1, y1, z1) (x2, y2, z2))
                            (MidPoint (x3, y3, z3) (x4, y4, z4))))
   \<and> ReduceCentre \<lparr>direction = d, numberOfPoints = TwoPoints\<rparr> [(0, 0, 0), (10, 0, 0)]
      = Inr (5, 0, 0)
   \<and> ReduceCentre \<lparr>direction = d, numberOfPoints = FourPoints\<rparr>
        [(0, 0, 0), (10, 0, 0), (5, 5, 0), (5, - 5, 0)]
      = Inr (5, 0, 0)"
proof -
  have general: "length points = required_points (numberOfPoints config)
      \<longrightarrow> ReduceCentre config points = Inr (centroid points)"
    by (simp add: ReduceCentre_is_centroid)
  have two: "numberOfPoints config = TwoPoints
      \<longrightarrow> ReduceCentre config [(x1, y1, z1), (x2, y2, z2)]
          = Inr ((x1 + x2) / 2, (y1 + y2) / 2, (z1 + z2) / 2)"
    by (simp add: ReduceCentre_two MidPoint_def px_def py_def pz_def)
  have four_sum: "numberOfPoints config = FourPoints
      \<longrightarrow> ReduceCentre config [(x1, y1, z1), (x2, y2, z2), (x3, y3, z3), (x4, y4, z4)]
          = Inr ((x1 + x2 + x3 + x4) / 4, (y1 + y2 + y3 + y4) / 4, (z1 + z2 + z3 + z4) / 4)"
    by (simp add: ReduceCentre_four MidPoint_def px_def py_def pz_def field_simps)
  have four_mid: "numberOfPoints config = FourPoints
      \<longrightarrow> ReduceCentre config [(x1, y1, z1), (x2, y2, z2), (x3, y3, z3), (x4, y4, z4)]
          = Inr (MidPoint (MidPoint (x1, y1, z1) (x2, y2, z2))
                          (MidPoint (x3, y3, z3) (x4, y4, z4)))"
    by (simp add: ReduceCentre_four)
  have ex2: "ReduceCentre \<lparr>direction = d, numberOfPoints = TwoPoints\<rparr> [(0, 0, 0), (10, 0, 0)]
      = Inr (5, 0, 0)"
    by (simp add: ReduceCentre_two MidPoint_def px_def py_def pz_def)
  have ex4: "ReduceCentre \<lparr>direction = d, numberOfPoints = FourPoints\<rparr>
        [(0, 0, 0), (10, 0, 0), (5, 5, 0), (5, - 5, 0)] = Inr (5, 0, 0)"
    by (simp add: ReduceCentre_four MidPoint_def px_def py_def pz_def)
  from general two four_sum four_mid ex2 ex4 show ?thesis by blast
qed

text \<open>
  The theorem at the two examples of the specification: the lengths match the
  configured counts, and the centroid, the midpoint and the coordinate sums all give
  (5, 0, 0).
\<close>

theorem ReduceCentre_midpoint_centroid_witness:
  "length [(0, 0, 0), (10, 0, 0) :: Point]
     = required_points (numberOfPoints \<lparr>direction = eOutside, numberOfPoints = TwoPoints\<rparr>)
   \<and> ReduceCentre \<lparr>direction = eOutside, numberOfPoints = TwoPoints\<rparr> [(0, 0, 0), (10, 0, 0)]
      = Inr (centroid [(0, 0, 0), (10, 0, 0)])
   \<and> centroid [(0, 0, 0), (10, 0, 0)] = (5, 0, 0)
   \<and> length [(0, 0, 0), (10, 0, 0), (5, 5, 0), (5, - 5, 0) :: Point]
     = required_points (numberOfPoints \<lparr>direction = eInside, numberOfPoints = FourPoints\<rparr>)
   \<and> ReduceCentre \<lparr>direction = eInside, numberOfPoints = FourPoints\<rparr>
        [(0, 0, 0), (10, 0, 0), (5, 5, 0), (5, - 5, 0)]
      = Inr (centroid [(0, 0, 0), (10, 0, 0), (5, 5, 0), (5, - 5, 0)])
   \<and> centroid [(0, 0, 0), (10, 0, 0), (5, 5, 0), (5, - 5, 0)] = (5, 0, 0)"
  using
    ReduceCentre_midpoint_centroid [of "[(0, 0, 0), (10, 0, 0)]"
      "\<lparr>direction = eOutside, numberOfPoints = TwoPoints\<rparr>" 0 0 0 10 0 0 0 0 0 0 0 0 eOutside]
    ReduceCentre_midpoint_centroid [of "[(0, 0, 0), (10, 0, 0), (5, 5, 0), (5, - 5, 0)]"
      "\<lparr>direction = eInside, numberOfPoints = FourPoints\<rparr>" 0 0 0 10 0 0 5 5 0 5 "- 5" 0 eInside]
  by (simp add: centroid_def px_def py_def pz_def)

end
